theory Spec2Isabelle
  imports Complex_Main
begin

section \<open>The project validator, scripts/validate-projects.mjs\<close>

text \<open>
  The script loads a JSON schema, lists the project files of one directory, and checks
  every file against the schema and a few rules on its image fields. It reports on the
  console and through the exit status of the process. The model below follows the script
  statement by statement: the mutable flag \<open>hasErrors\<close> and the console are fields of
  a state that every statement takes and returns, a thrown exception is the outcome
  \<open>Threw\<close>, and the file system and the schema compiler are read from an
  environment.
\<close>

subsection \<open>Parsed JSON values and the JavaScript operations on them\<close>

text \<open>
  What \<open>JSON.parse\<close> returns. An object is the list of its own properties, each name
  once. A number is its numeric value (the script only ever tests a number for being
  zero).
\<close>

datatype json =
    JNull
  | JBool bool
  | JNum rat
  | JStr string
  | JArr "json list"
  | JObj "(string \<times> json) list"

datatype js_error = TypeError | SyntaxError | SystemError

text \<open>
  \<open>data.key\<close>, for the property names the script reads (\<open>imageUrl\<close>,
  \<open>projectImage\<close>, \<open>studentPhoto\<close>), none of which a built-in prototype defines.
  Reading a property of \<open>null\<close> throws; on an array, a string, a number or a boolean
  the result is \<open>undefined\<close>, written \<open>None\<close>.
\<close>

fun js_get :: "json \<Rightarrow> string \<Rightarrow> js_error + json option" where
  "js_get JNull key = Inl TypeError"
| "js_get (JObj props) key = Inr (map_of props key)"
| "js_get _ key = Inr None"

text \<open>The truth value of a JSON value in a condition.\<close>

fun js_truthy :: "json \<Rightarrow> bool" where
  "js_truthy JNull = False"
| "js_truthy (JBool b) = b"
| "js_truthy (JNum n) = (n \<noteq> 0)"
| "js_truthy (JStr s) = (s \<noteq> [])"
| "js_truthy (JArr _) = True"
| "js_truthy (JObj _) = True"

fun truthy :: "json option \<Rightarrow> bool" where
  "truthy None = False"
| "truthy (Some v) = js_truthy v"

text \<open>
  \<open>v.includes(c)\<close> for a one-character string \<open>c\<close>. A string has
  \<open>String.prototype.includes\<close> (substring search), an array has
  \<open>Array.prototype.includes\<close> (element search); on any other value \<open>includes\<close>
  is not a function and the call throws.
\<close>

fun js_includes :: "json \<Rightarrow> char \<Rightarrow> js_error + bool" where
  "js_includes (JStr s) c = Inr (c \<in> set s)"
| "js_includes (JArr xs) c = Inr (JStr [c] \<in> set xs)"
| "js_includes _ c = Inl TypeError"

text \<open>\<open>a || b\<close> on two calls that may throw: \<open>b\<close> is evaluated only when \<open>a\<close> is false.\<close>

definition js_or :: "js_error + bool \<Rightarrow> js_error + bool \<Rightarrow> js_error + bool" where
  "js_or a b = (case a of Inl e \<Rightarrow> Inl e | Inr True \<Rightarrow> Inr True | Inr False \<Rightarrow> b)"

text \<open>
  \<open>key in data\<close>, for the names \<open>projectUrl\<close>, \<open>githubUrl\<close> and \<open>tags\<close>
  (no array index, no built-in property): it throws unless \<open>data\<close> is an object or
  an array.
\<close>

fun js_in :: "string \<Rightarrow> json \<Rightarrow> js_error + bool" where
  "js_in key (JObj props) = Inr (key \<in> fst ` set props)"
| "js_in key (JArr xs) = Inr False"
| "js_in key _ = Inl TypeError"

text \<open>
  \<open>path.join(dir, name)\<close> on strings, for a normalised \<open>dir\<close> and a \<open>name\<close>
  that holds no separator (the script joins a name only after it has found neither a
  slash nor a backslash in it). The result is normalised: the empty name and
  \<open>.\<close> give \<open>dir\<close> itself, \<open>..\<close> gives the directory above \<open>dir\<close>, and
  any other name is one more segment.
\<close>

definition parent_dir :: "string \<Rightarrow> string" where
  "parent_dir dir =
     (if CHR ''/'' \<in> set dir
      then rev (drop 1 (dropWhile (\<lambda>c. c \<noteq> CHR ''/'') (rev dir)))
      else ''.'')"

definition join_segment :: "string \<Rightarrow> string \<Rightarrow> string" where
  "join_segment dir name =
     (if name = [] \<or> name = ''.'' then dir
      else if name = ''..'' then parent_dir dir
      else dir @ ''/'' @ name)"

text \<open>\<open>path.join(dir, v)\<close> on a JSON value: every argument must be a string.\<close>

fun path_join :: "string \<Rightarrow> json \<Rightarrow> js_error + string" where
  "path_join dir (JStr name) = Inr (join_segment dir name)"
| "path_join dir _ = Inl TypeError"

definition projectsDir :: string where
  "projectsDir = ''src/data/projects''"

definition publicImagesDir :: string where
  "publicImagesDir = ''public/images''"

definition schemaPath :: string where
  "schemaPath = ''src/data/projects/project.schema.json''"

subsection \<open>The environment of a run\<close>

text \<open>The schema validator of Ajv: the returned flag and \<open>validate.errors\<close>.\<close>

record ajv_error =
  instancePath :: string
  message :: string

record validation =
  valid :: bool
  errors :: "ajv_error list"

text \<open>
  \<open>readdirSync\<close> is the listing of the projects directory, \<open>read_json\<close> what
  \<open>JSON.parse(fs.readFileSync(path))\<close> gives for a path, \<open>ajv_compile\<close> what
  \<open>ajv.compile\<close> gives for a schema document, and \<open>stat\<close> the size in bytes of
  the file at a path, \<open>None\<close> when \<open>fs.existsSync\<close> is false there.
\<close>

record env =
  readdirSync :: "js_error + string list"
  read_json :: "string \<Rightarrow> js_error + json"
  ajv_compile :: "json \<Rightarrow> js_error + (json \<Rightarrow> validation)"
  stat :: "string \<Rightarrow> nat option"

subsection \<open>The state of a run\<close>

text \<open>One constructor for each console call of the script, with the values it prints.\<close>

datatype line =
    InfoLine
  | NoFilesLine
  | SchemaHeaderLine string
  | SchemaErrorLine string string
  | RenamedLine
  | FilenameOnlyLine string json
  | NotFoundLine json
  | LargeLine nat
  | SuggestionLine string
  | FailedLine
  | AllValidLine nat
  | UncaughtLine js_error

datatype fs_call =
    ReadFileSync string
  | ReaddirSync string
  | ExistsSync string
  | StatSync string

record run_state =
  hasErrors :: bool
  console :: "line list"
  fs_log :: "fs_call list"

datatype outcome = Done run_state | Threw run_state js_error

definition print :: "line \<Rightarrow> run_state \<Rightarrow> run_state" where
  "print l st = st\<lparr>console := console st @ [l]\<rparr>"

definition access :: "fs_call \<Rightarrow> run_state \<Rightarrow> run_state" where
  "access c st = st\<lparr>fs_log := fs_log st @ [c]\<rparr>"

definition fail :: "run_state \<Rightarrow> run_state" where
  "fail st = st\<lparr>hasErrors := True\<rparr>"

text \<open>Statements in sequence: the first throw ends the sequence.\<close>

fun run_steps :: "(run_state \<Rightarrow> outcome) list \<Rightarrow> run_state \<Rightarrow> outcome" where
  "run_steps [] st = Done st"
| "run_steps (step # steps) st =
     (case step st of
        Done st' \<Rightarrow> run_steps steps st'
      | Threw st' e \<Rightarrow> Threw st' e)"

fun state_of :: "outcome \<Rightarrow> run_state" where
  "state_of (Done st) = st"
| "state_of (Threw st e) = st"

fun thrown :: "outcome \<Rightarrow> js_error option" where
  "thrown (Done st) = None"
| "thrown (Threw st e) = Some e"

subsection \<open>The functions of the script\<close>

definition readJSON :: "env \<Rightarrow> string \<Rightarrow> run_state \<Rightarrow> run_state \<times> (js_error + json)" where
  "readJSON E filePath st = (access (ReadFileSync filePath) st, read_json E filePath)"

definition endsWith :: "string \<Rightarrow> string \<Rightarrow> bool" where
  "endsWith f suffix =
     (length suffix \<le> length f \<and> drop (length f - length suffix) f = suffix)"

definition eligible :: "string \<Rightarrow> bool" where
  "eligible f = (endsWith f ''.json'' \<and> f \<noteq> ''project.schema.json'')"

definition findProjectFiles :: "env \<Rightarrow> run_state \<Rightarrow> run_state \<times> (js_error + string list)" where
  "findProjectFiles E st =
     (access (ReaddirSync projectsDir) st,
      case readdirSync E of
        Inl e \<Rightarrow> Inl e
      | Inr names \<Rightarrow> Inr (filter eligible names))"

text \<open>Lines 52 to 59: the schema check of one document.\<close>

definition schema_error_line :: "ajv_error \<Rightarrow> line" where
  "schema_error_line err =
     SchemaErrorLine (if instancePath err = [] then ''(root)'' else instancePath err)
       (message err)"

definition check_schema :: "(json \<Rightarrow> validation) \<Rightarrow> string \<Rightarrow> json \<Rightarrow> run_state \<Rightarrow> outcome" where
  "check_schema validate file data st =
     (if \<not> valid (validate data)
      then Done ((fail st)\<lparr>console := console st @
             SchemaHeaderLine file # map schema_error_line (errors (validate data))\<rparr>)
      else Done st)"

text \<open>Lines 62 to 65: the renamed field.\<close>

definition check_imageUrl :: "json \<Rightarrow> run_state \<Rightarrow> outcome" where
  "check_imageUrl data st =
     (case js_get data ''imageUrl'' of
        Inl e \<Rightarrow> Threw st e
      | Inr v \<Rightarrow> if truthy v then Done (print RenamedLine (fail st)) else Done st)"

definition maxBytes :: nat where
  "maxBytes = 10 * 1024 * 1024"

definition slash :: char where
  "slash = CHR ''/''"

definition backslash :: char where
  "backslash = CHR 0x5C"

text \<open>Lines 67 to 86: the check of \<open>projectImage\<close>.\<close>

definition check_projectImage :: "env \<Rightarrow> json \<Rightarrow> run_state \<Rightarrow> outcome" where
  "check_projectImage E data st =
     (case js_get data ''projectImage'' of
        Inl e \<Rightarrow> Threw st e
      | Inr None \<Rightarrow> Done st
      | Inr (Some v) \<Rightarrow>
          if \<not> js_truthy v then Done st
          else
            (case js_or (js_includes v slash) (js_includes v backslash) of
               Inl e \<Rightarrow> Threw st e
             | Inr True \<Rightarrow> Done (print (FilenameOnlyLine ''projectImage'' v) (fail st))
             | Inr False \<Rightarrow>
                 (case path_join publicImagesDir v of
                    Inl e \<Rightarrow> Threw st e
                  | Inr imgPath \<Rightarrow>
                      (case stat E imgPath of
                         None \<Rightarrow>
                           Done (print (NotFoundLine v) (fail (access (ExistsSync imgPath) st)))
                       | Some bytes \<Rightarrow>
                           if bytes > maxBytes
                           then Done (print (LargeLine bytes)
                                  (fail (access (StatSync imgPath) (access (ExistsSync imgPath) st))))
                           else Done (access (StatSync imgPath) (access (ExistsSync imgPath) st))))))"

text \<open>Lines 88 to 106: the check of \<open>studentPhoto\<close>.\<close>

definition check_studentPhoto :: "env \<Rightarrow> json \<Rightarrow> run_state \<Rightarrow> outcome" where
  "check_studentPhoto E data st =
     (case js_get data ''studentPhoto'' of
        Inl e \<Rightarrow> Threw st e
      | Inr None \<Rightarrow> Done st
      | Inr (Some v) \<Rightarrow>
          if \<not> js_truthy v then Done st
          else
            (case js_or (js_includes v slash) (js_includes v backslash) of
               Inl e \<Rightarrow> Threw st e
             | Inr True \<Rightarrow> Done (print (FilenameOnlyLine ''studentPhoto'' v) (fail st))
             | Inr False \<Rightarrow>
                 (case path_join publicImagesDir v of
                    Inl e \<Rightarrow> Threw st e
                  | Inr imgPath \<Rightarrow>
                      (case stat E imgPath of
                         None \<Rightarrow>
                           Done (print (NotFoundLine v) (fail (access (ExistsSync imgPath) st)))
                       | Some bytes \<Rightarrow>
                           if bytes > maxBytes
                           then Done (print (LargeLine bytes)
                                  (fail (access (StatSync imgPath) (access (ExistsSync imgPath) st))))
                           else Done (access (StatSync imgPath) (access (ExistsSync imgPath) st))))))"

text \<open>Lines 109 to 114: the suggested fields.\<close>

definition suggested :: "string list" where
  "suggested = [''projectUrl'', ''githubUrl'', ''tags'']"

fun suggest :: "string list \<Rightarrow> json \<Rightarrow> run_state \<Rightarrow> outcome" where
  "suggest [] data st = Done st"
| "suggest (key # keys) data st =
     (case js_in key data of
        Inl e \<Rightarrow> Threw st e
      | Inr present \<Rightarrow>
          suggest keys data (if \<not> present then print (SuggestionLine key) st else st))"

text \<open>Lines 48 to 115: the body of the loop, and the loop.\<close>

definition validate_file :: "env \<Rightarrow> (json \<Rightarrow> validation) \<Rightarrow> string \<Rightarrow> run_state \<Rightarrow> outcome" where
  "validate_file E validate file st =
     (case readJSON E (projectsDir @ ''/'' @ file) st of
        (st', Inl e) \<Rightarrow> Threw st' e
      | (st', Inr data) \<Rightarrow>
          run_steps
            [check_schema validate file data,
             check_imageUrl data,
             check_projectImage E data,
             check_studentPhoto E data,
             suggest suggested data] st')"

fun validate_files :: "env \<Rightarrow> (json \<Rightarrow> validation) \<Rightarrow> string list \<Rightarrow> run_state \<Rightarrow> outcome" where
  "validate_files E validate [] st = Done st"
| "validate_files E validate (file # files) st =
     (case validate_file E validate file st of
        Done st' \<Rightarrow> validate_files E validate files st'
      | Threw st' e \<Rightarrow> Threw st' e)"

text \<open>What the process leaves behind: what it printed, its file accesses, its exit status.\<close>

record process =
  printed :: "line list"
  accessed :: "fs_call list"
  exit_code :: nat

definition exit_with :: "nat \<Rightarrow> run_state \<Rightarrow> process" where
  "exit_with code st = \<lparr>printed = console st, accessed = fs_log st, exit_code = code\<rparr>"

text \<open>Lines 125 to 128: the handler of a rejected \<open>main\<close>.\<close>

definition catch :: "run_state \<Rightarrow> js_error \<Rightarrow> process" where
  "catch st e = exit_with 1 (print (UncaughtLine e) st)"

definition init :: run_state where
  "init = \<lparr>hasErrors = False, console = [], fs_log = []\<rparr>"

text \<open>Lines 31 to 123.\<close>

definition main :: "env \<Rightarrow> process" where
  "main E =
     (case readJSON E schemaPath (print InfoLine init) of
        (st1, Inl e) \<Rightarrow> catch st1 e
      | (st1, Inr schema) \<Rightarrow>
          (case ajv_compile E schema of
             Inl e \<Rightarrow> catch st1 e
           | Inr validate \<Rightarrow>
               (case findProjectFiles E st1 of
                  (st2, Inl e) \<Rightarrow> catch st2 e
                | (st2, Inr files) \<Rightarrow>
                    if length files = 0 then exit_with 1 (print NoFilesLine st2)
                    else
                      (case validate_files E validate files st2 of
                         Threw st3 e \<Rightarrow> catch st3 e
                       | Done st3 \<Rightarrow>
                           if hasErrors st3 then exit_with 1 (print FailedLine st3)
                           else exit_with 0 (print (AllValidLine (length files)) st3)))))"

subsection \<open>Notions used in the statements\<close>

text \<open>An outcome is clean when nothing was thrown and the flag is still down.\<close>

fun clean :: "outcome \<Rightarrow> bool" where
  "clean (Done st) = (\<not> hasErrors st)"
| "clean (Threw st e) = False"

text \<open>The effect of a check that ends normally: a verdict, lines, file accesses.\<close>

definition emit :: "bool \<Rightarrow> line list \<Rightarrow> fs_call list \<Rightarrow> run_state \<Rightarrow> run_state" where
  "emit failed ls cs st =
     st\<lparr>hasErrors := (hasErrors st \<or> failed), console := console st @ ls,
        fs_log := fs_log st @ cs\<rparr>"

text \<open>A later state of the same run: the flag is never lowered, nothing printed is taken back.\<close>

definition grows :: "run_state \<Rightarrow> run_state \<Rightarrow> bool" where
  "grows st st' =
     ((hasErrors st' \<or> \<not> hasErrors st) \<and>
      take (length (console st)) (console st') = console st \<and>
      take (length (fs_log st)) (fs_log st') = fs_log st)"

text \<open>The lines and the file accesses that a statement adds to a state.\<close>

definition emitted :: "run_state \<Rightarrow> outcome \<Rightarrow> line list" where
  "emitted st out = drop (length (console st)) (console (state_of out))"

definition touched :: "run_state \<Rightarrow> outcome \<Rightarrow> fs_call list" where
  "touched st out = drop (length (fs_log st)) (fs_log (state_of out))"

text \<open>A document on which no property access throws: an object or an array.\<close>

fun is_record :: "json \<Rightarrow> bool" where
  "is_record (JObj props) = True"
| "is_record (JArr xs) = True"
| "is_record _ = False"

fun is_string :: "json \<Rightarrow> bool" where
  "is_string (JStr s) = True"
| "is_string _ = False"

text \<open>
  A bare filename that references an existing file of at most 10 MiB under the images
  directory.
\<close>

fun bare_existing :: "env \<Rightarrow> json \<Rightarrow> bool" where
  "bare_existing E (JStr name) =
     (slash \<notin> set name \<and> backslash \<notin> set name \<and>
      (case stat E (join_segment publicImagesDir name) of
         None \<Rightarrow> False
       | Some bytes \<Rightarrow> bytes \<le> 10 * 1024 * 1024))"
| "bare_existing E _ = False"

text \<open>The field of a document as the script reads it; \<open>None\<close> when absent.\<close>

fun field :: "json \<Rightarrow> string \<Rightarrow> json option" where
  "field (JObj props) key = map_of props key"
| "field _ key = None"

text \<open>
  The file accesses of the check of one image field: none, unless the value is a non-empty
  string without separator; then the existence test and, when the file exists, the size.
\<close>

fun image_calls :: "env \<Rightarrow> json option \<Rightarrow> fs_call list" where
  "image_calls E (Some (JStr s)) =
     (if s = [] \<or> slash \<in> set s \<or> backslash \<in> set s then []
      else
        (case stat E (join_segment publicImagesDir s) of
           None \<Rightarrow> [ExistsSync (join_segment publicImagesDir s)]
         | Some bytes \<Rightarrow>
             [ExistsSync (join_segment publicImagesDir s),
              StatSync (join_segment publicImagesDir s)]))"
| "image_calls E _ = []"

subsubsection \<open>The checks as the specification words them\<close>

text \<open>
  Section 4.3 of the specification, steps 2 to 5: each check is a function of the
  document alone and gives a verdict (failed or not) and the lines it reports.
\<close>

definition spec_schema :: "(json \<Rightarrow> validation) \<Rightarrow> string \<Rightarrow> json \<Rightarrow> bool \<times> line list" where
  "spec_schema validate file data =
     (if valid (validate data) then (False, [])
      else (True, SchemaHeaderLine file # map schema_error_line (errors (validate data))))"

definition spec_imageUrl :: "json \<Rightarrow> bool \<times> line list" where
  "spec_imageUrl data = (if truthy (field data ''imageUrl'') then (True, [RenamedLine]) else (False, []))"

text \<open>
  The image rule for a field holding a string; the specification has no rule for a value
  of another type, and none is reported here.
\<close>

fun spec_image_value :: "env \<Rightarrow> string \<Rightarrow> json \<Rightarrow> bool \<times> line list" where
  "spec_image_value E name (JStr s) =
     (if s = [] then (False, [])
      else if slash \<in> set s \<or> backslash \<in> set s then (True, [FilenameOnlyLine name (JStr s)])
      else
        (case stat E (join_segment publicImagesDir s) of
           None \<Rightarrow> (True, [NotFoundLine (JStr s)])
         | Some bytes \<Rightarrow>
             if bytes > 10 * 1024 * 1024 then (True, [LargeLine bytes]) else (False, [])))"
| "spec_image_value E name _ = (False, [])"

definition spec_image :: "env \<Rightarrow> string \<Rightarrow> json \<Rightarrow> bool \<times> line list" where
  "spec_image E name data =
     (case field data name of
        None \<Rightarrow> (False, [])
      | Some v \<Rightarrow> spec_image_value E name v)"

definition spec_suggestions :: "json \<Rightarrow> bool \<times> line list" where
  "spec_suggestions data =
     (False, map SuggestionLine (filter (\<lambda>key. field data key = None) suggested))"

definition spec_checks :: "env \<Rightarrow> (json \<Rightarrow> validation) \<Rightarrow> string \<Rightarrow> json \<Rightarrow> (bool \<times> line list) list" where
  "spec_checks E validate file data =
     [spec_schema validate file data,
      spec_imageUrl data,
      spec_image E ''projectImage'' data,
      spec_image E ''studentPhoto'' data,
      spec_suggestions data]"

text \<open>The document of a file, for the files that parse.\<close>

definition document :: "env \<Rightarrow> string \<Rightarrow> json" where
  "document E file =
     (case read_json E (projectsDir @ ''/'' @ file) of
        Inl e \<Rightarrow> JNull
      | Inr data \<Rightarrow> data)"

definition file_failed :: "env \<Rightarrow> (json \<Rightarrow> validation) \<Rightarrow> string \<Rightarrow> bool" where
  "file_failed E validate file =
     list_ex fst (spec_checks E validate file (document E file))"

definition file_report :: "env \<Rightarrow> (json \<Rightarrow> validation) \<Rightarrow> string \<Rightarrow> line list" where
  "file_report E validate file =
     concat (map snd (spec_checks E validate file (document E file)))"

text \<open>The verdict of the four checks that can fail, the suggestions left aside.\<close>

definition checks_failed :: "env \<Rightarrow> (json \<Rightarrow> validation) \<Rightarrow> string \<Rightarrow> bool" where
  "checks_failed E validate file =
     (fst (spec_schema validate file (document E file)) \<or>
      fst (spec_imageUrl (document E file)) \<or>
      fst (spec_image E ''projectImage'' (document E file)) \<or>
      fst (spec_image E ''studentPhoto'' (document E file)))"

text \<open>
  The files whose processing throws nothing: the file parses to an object or an array,
  and each of its two image fields is absent, falsy or a string.
\<close>

definition string_or_falsy :: "json option \<Rightarrow> bool" where
  "string_or_falsy v =
     (case v of
        None \<Rightarrow> True
      | Some x \<Rightarrow> is_string x \<or> js_truthy x = False)"

definition well_formed :: "env \<Rightarrow> string \<Rightarrow> bool" where
  "well_formed E file =
     (case read_json E (projectsDir @ ''/'' @ file) of
        Inl e \<Rightarrow> False
      | Inr data \<Rightarrow>
          is_record data \<and> string_or_falsy (field data ''projectImage'') \<and>
          string_or_falsy (field data ''studentPhoto''))"

subsubsection \<open>Success of a run, as the specification words it\<close>

text \<open>
  A run fully succeeds when the schema loads, the directory lists at least one eligible
  file, and every eligible file parses to an object or an array, passes the schema, holds
  no truthy \<open>imageUrl\<close> and has two good image fields. Here an image field is good
  when it is absent or falsy, or is a bare filename of an existing file of at most 10 MiB.
\<close>

definition image_ok :: "env \<Rightarrow> json option \<Rightarrow> bool" where
  "image_ok E v =
     (case v of
        None \<Rightarrow> True
      | Some x \<Rightarrow> if js_truthy x then bare_existing E x else True)"

definition file_ok :: "env \<Rightarrow> (json \<Rightarrow> validation) \<Rightarrow> string \<Rightarrow> bool" where
  "file_ok E validate file =
     (case read_json E (projectsDir @ ''/'' @ file) of
        Inl e \<Rightarrow> False
      | Inr data \<Rightarrow>
          is_record data \<and> valid (validate data) \<and> truthy (field data ''imageUrl'') = False \<and>
          image_ok E (field data ''projectImage'') \<and> image_ok E (field data ''studentPhoto''))"

definition succeeds :: "env \<Rightarrow> bool" where
  "succeeds E =
     (case read_json E schemaPath of
        Inl e \<Rightarrow> False
      | Inr schema \<Rightarrow>
          (case ajv_compile E schema of
             Inl e \<Rightarrow> False
           | Inr validate \<Rightarrow>
               (case readdirSync E of
                  Inl e \<Rightarrow> False
                | Inr names \<Rightarrow>
                    filter eligible names \<noteq> [] \<and>
                    list_all (file_ok E validate) (filter eligible names))))"

text \<open>
  The same notion with the image condition put on every present field, whatever its
  value: a field that is present must be a bare filename of an existing file of at most
  10 MiB.
\<close>

definition present_image_ok :: "env \<Rightarrow> json option \<Rightarrow> bool" where
  "present_image_ok E v =
     (case v of
        None \<Rightarrow> True
      | Some x \<Rightarrow> bare_existing E x)"

definition file_ok_present :: "env \<Rightarrow> (json \<Rightarrow> validation) \<Rightarrow> string \<Rightarrow> bool" where
  "file_ok_present E validate file =
     (case read_json E (projectsDir @ ''/'' @ file) of
        Inl e \<Rightarrow> False
      | Inr data \<Rightarrow>
          is_record data \<and> valid (validate data) \<and> truthy (field data ''imageUrl'') = False \<and>
          present_image_ok E (field data ''projectImage'') \<and>
          present_image_ok E (field data ''studentPhoto''))"

definition succeeds_present :: "env \<Rightarrow> bool" where
  "succeeds_present E =
     (case read_json E schemaPath of
        Inl e \<Rightarrow> False
      | Inr schema \<Rightarrow>
          (case ajv_compile E schema of
             Inl e \<Rightarrow> False
           | Inr validate \<Rightarrow>
               (case readdirSync E of
                  Inl e \<Rightarrow> False
                | Inr names \<Rightarrow>
                    filter eligible names \<noteq> [] \<and>
                    list_all (file_ok_present E validate) (filter eligible names))))"

text \<open>The line of the \<open>projectImage\<close> check, as the \<open>studentPhoto\<close> check prints it.\<close>

fun as_studentPhoto :: "line \<Rightarrow> line" where
  "as_studentPhoto (FilenameOnlyLine name v) = FilenameOnlyLine ''studentPhoto'' v"
| "as_studentPhoto l = l"

subsection \<open>Concrete runs\<close>

text \<open>
  A schema that accepts every document, and the environment of a directory that holds the
  schema file, the given project files (each with what parsing it gives) and, under the
  images directory, the given entries with their sizes; the entry \<open>.\<close> is the images
  directory itself, the entry \<open>..\<close> the directory above it.
\<close>

definition accept_all :: "json \<Rightarrow> validation" where
  "accept_all data = \<lparr>valid = True, errors = []\<rparr>"

definition directory :: "(string \<times> (js_error + json)) list \<Rightarrow> (string \<times> nat) list \<Rightarrow> env" where
  "directory files images =
     \<lparr>readdirSync = Inr (''project.schema.json'' # map fst files),
      read_json = (\<lambda>p.
        if p = schemaPath then Inr (JObj [])
        else
          (case map_of (map (\<lambda>(f, r). (projectsDir @ ''/'' @ f, r)) files) p of
             None \<Rightarrow> Inl SystemError
           | Some r \<Rightarrow> r)),
      ajv_compile = (\<lambda>schema. Inr accept_all),
      stat = map_of (map (\<lambda>(n, bytes). (join_segment publicImagesDir n, bytes)) images)\<rparr>"

text \<open>A validator that rejects every document without a \<open>title\<close>, at the root.\<close>

definition needs_title :: "json \<Rightarrow> validation" where
  "needs_title data =
     (if field data ''title'' = None
      then \<lparr>valid = False,
            errors = [\<lparr>instancePath = [], message = ''must have required property title''\<rparr>]\<rparr>
      else \<lparr>valid = True, errors = []\<rparr>)"

text \<open>
  Two project files, the first failing the \<open>imageUrl\<close> check and both image checks, the
  second lacking only \<open>tags\<close>; the images directory holds one file of 10 MiB.
\<close>

definition two_files :: env where
  "two_files =
     directory
       [(''a.json'', Inr (JObj [(''imageUrl'', JStr ''old.png''),
           (''projectImage'', JStr ''img/a.png''), (''studentPhoto'', JStr ''missing.png'')])),
        (''b.json'', Inr (JObj [(''title'', JStr ''B''), (''projectImage'', JStr ''b.png''),
           (''projectUrl'', JStr ''u''), (''githubUrl'', JStr ''g'')]))]
       [(''.'', 4096), (''b.png'', 10485760)]"

text \<open>Two project files, the first with a number as its \<open>projectImage\<close>.\<close>

definition number_image :: env where
  "number_image =
     directory
       [(''a.json'', Inr (JObj [(''imageUrl'', JStr ''old.png''),
           (''projectImage'', JNum 5), (''studentPhoto'', JStr ''img/a.png'')])),
        (''b.json'', Inr (JObj [(''imageUrl'', JStr ''old.png'')]))]
       []"

text \<open>Two project files, the first not parseable.\<close>

definition unparseable :: env where
  "unparseable =
     directory
       [(''a.json'', Inl SyntaxError),
        (''b.json'', Inr (JObj [(''imageUrl'', JStr ''old.png'')]))]
       []"

text \<open>One project file, with the empty string as its \<open>projectImage\<close>.\<close>

definition empty_image :: env where
  "empty_image = directory [(''a.json'', Inr (JObj [(''projectImage'', JStr [])]))] []"

text \<open>
  Two project files with a path in an image field: the first in \<open>projectImage\<close>, the
  second in \<open>studentPhoto\<close>; the images directory holds one small file.
\<close>

definition path_fields :: env where
  "path_fields =
     directory
       [(''a.json'', Inr (JObj [(''projectImage'', JStr ''img/a.png''),
           (''studentPhoto'', JStr ''me.png'')])),
        (''b.json'', Inr (JObj [(''projectImage'', JStr ''me.png''),
           (''studentPhoto'', JStr ''img/me.png'')]))]
       [(''.'', 4096), (''me.png'', 5)]"

text \<open>
  One project file, with a number as its \<open>projectImage\<close> and a path as its
  \<open>studentPhoto\<close>.
\<close>

definition number_then_path :: env where
  "number_then_path =
     directory
       [(''a.json'', Inr (JObj [(''projectImage'', JNum 5),
           (''studentPhoto'', JStr ''img/a.png'')]))]
       []"

text \<open>One project file, whose document is the JSON string \<open>"abc"\<close>.\<close>

definition string_document :: env where
  "string_document = directory [(''a.json'', Inr (JStr ''abc''))] []"

section \<open>Properties\<close>

subsection \<open>Paths under the images directory\<close>

lemma join_segment_images:
  "join_segment publicImagesDir ''a.png'' = ''public/images/a.png'' \<and>
   join_segment publicImagesDir ''.'' = ''public/images'' \<and>
   join_segment publicImagesDir ''..'' = ''public''"
  by (simp add: join_segment_def parent_dir_def publicImagesDir_def)

lemma join_segment_plain:
  "name \<noteq> [] \<Longrightarrow> name \<noteq> ''.'' \<Longrightarrow> name \<noteq> ''..'' \<Longrightarrow>
   join_segment dir name = dir @ ''/'' @ name"
  by (simp add: join_segment_def)

subsection \<open>The state only grows\<close>

lemma js_or_Inr [simp]: "js_or (Inr a) (Inr b) = Inr (a \<or> b)"
  by (simp add: js_or_def split: bool.splits)

lemma js_or_Inl [simp]: "js_or (Inl e) b = Inl e"
  by (simp add: js_or_def)

lemma take_length_iff: "take (length xs) ys = xs \<longleftrightarrow> (\<exists>zs. ys = xs @ zs)"
proof
  assume "take (length xs) ys = xs"
  then have "ys = xs @ drop (length xs) ys"
    by (metis append_take_drop_id)
  then show "\<exists>zs. ys = xs @ zs" ..
next
  assume "\<exists>zs. ys = xs @ zs"
  then show "take (length xs) ys = xs" by auto
qed

lemma grows_iff:
  "grows st st' \<longleftrightarrow>
     (hasErrors st \<longrightarrow> hasErrors st') \<and> (\<exists>ls. console st' = console st @ ls) \<and>
     (\<exists>cs. fs_log st' = fs_log st @ cs)"
  unfolding grows_def take_length_iff by blast

lemma grows_refl [simp]: "grows st st"
  by (simp add: grows_def)

lemma grows_trans: "grows a b \<Longrightarrow> grows b c \<Longrightarrow> grows a c"
  unfolding grows_iff by auto

lemma grows_emit [simp]: "grows st (emit b ls cs st)"
  by (auto simp add: grows_def emit_def)

lemma print_emit: "print l st = emit False [l] [] st"
  by (simp add: print_def emit_def)

lemma fail_emit: "fail st = emit True [] [] st"
  by (simp add: fail_def emit_def)

lemma access_emit: "access c st = emit False [] [c] st"
  by (simp add: access_def emit_def)

lemma emit_emit [simp]:
  "emit b2 l2 c2 (emit b1 l1 c1 st) = emit (b1 \<or> b2) (l1 @ l2) (c1 @ c2) st"
  by (simp add: emit_def disj_assoc)

lemma emit_nothing [simp]: "emit False [] [] st = st"
  by (simp add: emit_def)

lemmas to_emit = print_emit fail_emit access_emit

lemma grows_check_schema: "grows st (state_of (check_schema validate file data st))"
  by (auto simp add: check_schema_def grows_def fail_def)

lemma grows_check_imageUrl: "grows st (state_of (check_imageUrl data st))"
  by (simp add: check_imageUrl_def to_emit split: sum.splits)

lemma grows_check_projectImage: "grows st (state_of (check_projectImage E data st))"
  by (simp add: check_projectImage_def to_emit split: sum.splits option.splits bool.splits)

lemma grows_check_studentPhoto: "grows st (state_of (check_studentPhoto E data st))"
  by (simp add: check_studentPhoto_def to_emit split: sum.splits option.splits bool.splits)

lemma grows_suggest: "grows st (state_of (suggest keys data st))"
proof (induction keys arbitrary: st)
  case Nil
  show ?case by simp
next
  case (Cons key keys)
  show ?case
  proof (cases "js_in key data")
    case (Inl e)
    then show ?thesis by simp
  next
    case (Inr present)
    have "grows st (if \<not> present then print (SuggestionLine key) st else st)"
      by (simp add: to_emit)
    from grows_trans [OF this Cons.IH] show ?thesis
      using Inr by simp
  qed
qed

lemma grows_run_steps:
  "(\<And>step st. step \<in> set steps \<Longrightarrow> grows st (state_of (step st))) \<Longrightarrow>
   grows st (state_of (run_steps steps st))"
proof (induction steps arbitrary: st)
  case Nil
  show ?case by simp
next
  case (Cons step steps)
  have first: "grows st (state_of (step st))"
    using Cons.prems by simp
  show ?case
  proof (cases "step st")
    case (Done st')
    have "grows st' (state_of (run_steps steps st'))"
      using Cons.IH Cons.prems by simp
    with first Done show ?thesis
      by (auto intro: grows_trans)
  next
    case (Threw st' e)
    with first show ?thesis by simp
  qed
qed

lemma grows_validate_file: "grows st (state_of (validate_file E validate file st))"
proof (cases "read_json E (projectsDir @ ''/'' @ file)")
  case (Inl e)
  then show ?thesis
    by (simp add: validate_file_def readJSON_def to_emit)
next
  case (Inr data)
  let ?st' = "access (ReadFileSync (projectsDir @ ''/'' @ file)) st"
  have "grows ?st' (state_of (run_steps
          [check_schema validate file data, check_imageUrl data, check_projectImage E data,
           check_studentPhoto E data, suggest suggested data] ?st'))"
    by (rule grows_run_steps)
      (auto simp: grows_check_schema grows_check_imageUrl grows_check_projectImage
         grows_check_studentPhoto grows_suggest)
  moreover have "grows st ?st'"
    by (simp add: to_emit)
  ultimately show ?thesis
    using Inr by (simp add: validate_file_def readJSON_def) (blast intro: grows_trans)
qed

lemma grows_validate_files: "grows st (state_of (validate_files E validate files st))"
proof (induction files arbitrary: st)
  case Nil
  show ?case by simp
next
  case (Cons f fs)
  have first: "grows st (state_of (validate_file E validate f st))"
    by (rule grows_validate_file)
  show ?case
  proof (cases "validate_file E validate f st")
    case (Done st')
    with first Cons.IH [of st'] show ?thesis
      by (auto intro: grows_trans)
  next
    case (Threw st' e)
    with first show ?thesis by simp
  qed
qed

subsection \<open>The checks of one document\<close>

lemma js_get_field: "data \<noteq> JNull \<Longrightarrow> js_get data key = Inr (field data key)"
  by (cases data) simp_all

lemma field_Some_get: "field data key = Some v \<Longrightarrow> js_get data key = Inr (Some v)"
  by (cases data) simp_all

lemma emitted_emit [simp]: "emitted st (Done (emit b ls cs st)) = ls"
  by (simp add: emitted_def emit_def)

lemma touched_emit [simp]: "touched st (Done (emit b ls cs st)) = cs"
  by (simp add: touched_def emit_def)




text \<open>
  Claim C4. A document whose \<open>imageUrl\<close> is a non-empty string raises the failure flag
  and has the rename instruction among the lines printed for its file, whatever the
  schema validator answers and whatever the later checks of the file do.
\<close>

theorem nonempty_imageUrl_flagged:
  assumes parsed: "read_json E (projectsDir @ ''/'' @ file) = Inr data"
    and present: "field data ''imageUrl'' = Some (JStr s)"
    and nonempty: "s \<noteq> []"
  shows "hasErrors (state_of (validate_file E validate file st)) \<and>
         RenamedLine \<in> set (emitted st (validate_file E validate file st))"
proof -
  let ?st0 = "access (ReadFileSync (projectsDir @ ''/'' @ file)) st"
  let ?rest = "[check_projectImage E data, check_studentPhoto E data, suggest suggested data]"
  obtain st1 where schema: "check_schema validate file data ?st0 = Done st1"
    by (cases "valid (validate data)") (simp_all add: check_schema_def)
  have g1: "grows ?st0 st1"
    using grows_check_schema [of ?st0 validate "file" data] schema by simp
  let ?st2 = "emit True [RenamedLine] [] st1"
  have renamed: "check_imageUrl data st1 = Done ?st2"
    using present nonempty by (simp add: check_imageUrl_def field_Some_get to_emit)
  have run: "validate_file E validate file st = run_steps ?rest ?st2"
    using parsed schema renamed by (simp add: validate_file_def readJSON_def)
  have "grows ?st2 (state_of (run_steps ?rest ?st2))"
    by (rule grows_run_steps)
      (auto simp: grows_check_projectImage grows_check_studentPhoto grows_suggest)
  then have g2: "grows ?st2 (state_of (validate_file E validate file st))"
    using run by simp
  have "console ?st0 = console st"
    by (simp add: access_def)
  with g1 obtain ls0 where ls0: "console st1 = console st @ ls0"
    by (auto simp: grows_iff)
  from g2 obtain ls where "console (state_of (validate_file E validate file st)) =
      console ?st2 @ ls"
    by (auto simp: grows_iff)
  then have "emitted st (validate_file E validate file st) = ls0 @ [RenamedLine] @ ls"
    using ls0 by (simp add: emitted_def emit_def)
  moreover have "hasErrors (state_of (validate_file E validate file st))"
    using g2 by (simp add: grows_iff emit_def)
  ultimately show ?thesis by simp
qed

theorem nonempty_imageUrl_flagged_witness:
  "hasErrors (state_of (validate_file
      (directory [(''a.json'', Inr (JObj [(''imageUrl'', JStr ''old.png'')]))] [])
      accept_all ''a.json'' init)) \<and>
   RenamedLine \<in> set (emitted init (validate_file
      (directory [(''a.json'', Inr (JObj [(''imageUrl'', JStr ''old.png'')]))] [])
      accept_all ''a.json'' init))"
proof -
  let ?E = "directory [(''a.json'', Inr (JObj [(''imageUrl'', JStr ''old.png'')]))] []"
  have parsed: "read_json ?E (projectsDir @ ''/'' @ ''a.json'') =
      Inr (JObj [(''imageUrl'', JStr ''old.png'')])"
    by (simp add: directory_def projectsDir_def schemaPath_def)
  have present: "field (JObj [(''imageUrl'', JStr ''old.png'')]) ''imageUrl'' = Some (JStr ''old.png'')"
    by simp
  have nonempty: "''old.png'' \<noteq> []"
    by simp
  show ?thesis
    by (rule nonempty_imageUrl_flagged [OF parsed present nonempty])
qed

text \<open>
  Claim C6. For a bare filename whose file exists, the check raises the flag and prints
  the size line exactly when the size is above 10 * 1024 * 1024 bytes; otherwise it only
  records its two file accesses. A file of 10 MiB and one byte is flagged, a file of 10 MiB
  is not. The same holds for both image fields.
\<close>

theorem size_limit_strict:
  assumes "name \<noteq> []" and "slash \<notin> set name" and "backslash \<notin> set name"
    and "stat E (join_segment publicImagesDir name) = Some bytes"
  shows "(field data ''projectImage'' = Some (JStr name) \<longrightarrow>
      check_projectImage E data st =
        (if bytes > 10 * 1024 * 1024
         then Done (st\<lparr>hasErrors := True, console := console st @ [LargeLine bytes],
                fs_log := fs_log st @ [ExistsSync (join_segment publicImagesDir name),
                  StatSync (join_segment publicImagesDir name)]\<rparr>)
         else Done (st\<lparr>fs_log := fs_log st @ [ExistsSync (join_segment publicImagesDir name),
                  StatSync (join_segment publicImagesDir name)]\<rparr>))) \<and>
    (field data ''studentPhoto'' = Some (JStr name) \<longrightarrow>
      check_studentPhoto E data st =
        (if bytes > 10 * 1024 * 1024
         then Done (st\<lparr>hasErrors := True, console := console st @ [LargeLine bytes],
                fs_log := fs_log st @ [ExistsSync (join_segment publicImagesDir name),
                  StatSync (join_segment publicImagesDir name)]\<rparr>)
         else Done (st\<lparr>fs_log := fs_log st @ [ExistsSync (join_segment publicImagesDir name),
                  StatSync (join_segment publicImagesDir name)]\<rparr>))) \<and>
    (bytes = 10 * 1024 * 1024 + 1 \<longrightarrow> field data ''projectImage'' = Some (JStr name) \<longrightarrow>
      hasErrors (state_of (check_projectImage E data st))) \<and>
    (bytes = 10 * 1024 * 1024 \<longrightarrow> field data ''projectImage'' = Some (JStr name) \<longrightarrow>
      hasErrors (state_of (check_projectImage E data st)) = hasErrors st)"
  using assms
  by (auto simp add: check_projectImage_def check_studentPhoto_def field_Some_get
      print_def fail_def access_def maxBytes_def)

theorem size_limit_strict_witness:
  "check_projectImage (directory [] [(''a.png'', 10485761)])
     (JObj [(''projectImage'', JStr ''a.png'')]) init =
     Done \<lparr>hasErrors = True, console = [LargeLine 10485761],
       fs_log = [ExistsSync ''public/images/a.png'', StatSync ''public/images/a.png'']\<rparr> \<and>
   check_studentPhoto (directory [] [(''a.png'', 10485760)])
     (JObj [(''studentPhoto'', JStr ''a.png'')]) init =
     Done \<lparr>hasErrors = False, console = [],
       fs_log = [ExistsSync ''public/images/a.png'', StatSync ''public/images/a.png'']\<rparr>"
proof -
  have name: "''a.png'' \<noteq> []" "slash \<notin> set ''a.png''" "backslash \<notin> set ''a.png''"
    by (simp_all add: slash_def backslash_def)
  have over: "stat (directory [] [(''a.png'', 10485761)]) (join_segment publicImagesDir ''a.png'') =
      Some 10485761"
    by (simp add: directory_def)
  have at_limit: "stat (directory [] [(''a.png'', 10485760)]) (join_segment publicImagesDir ''a.png'') =
      Some 10485760"
    by (simp add: directory_def)
  show ?thesis
    using size_limit_strict [OF name over, of "JObj [(''projectImage'', JStr ''a.png'')]" init]
      size_limit_strict [OF name at_limit, of "JObj [(''studentPhoto'', JStr ''a.png'')]" init]
    by (simp add: init_def publicImagesDir_def join_segment_def)
qed

lemma js_in_field: "is_record data \<Longrightarrow> js_in key data = Inr (field data key \<noteq> None)"
  by (cases data) (simp_all add: map_of_eq_None_iff)

lemma suggest_emit:
  "is_record data \<Longrightarrow>
   suggest keys data st =
     Done (emit False (map SuggestionLine (filter (\<lambda>key. field data key = None) keys)) [] st)"
proof (induction keys arbitrary: st)
  case Nil
  show ?case by simp
next
  case (Cons key keys)
  then show ?case
    by (simp add: js_in_field to_emit)
qed

text \<open>
  Claim C9. Given the same field value, the same file system and the same state, the
  check of \<open>studentPhoto\<close> throws exactly when the check of \<open>projectImage\<close> throws,
  leaves the same flag and the same file accesses, and prints the same lines but for the
  name of the field in the line "filename only, no path".
\<close>

theorem studentPhoto_check_like_projectImage:
  assumes "js_get d2 ''studentPhoto'' = js_get d1 ''projectImage''"
  shows "thrown (check_studentPhoto E d2 st) = thrown (check_projectImage E d1 st) \<and>
    hasErrors (state_of (check_studentPhoto E d2 st)) =
      hasErrors (state_of (check_projectImage E d1 st)) \<and>
    fs_log (state_of (check_studentPhoto E d2 st)) =
      fs_log (state_of (check_projectImage E d1 st)) \<and>
    console (state_of (check_projectImage E d1 st)) =
      console st @ emitted st (check_projectImage E d1 st) \<and>
    console (state_of (check_studentPhoto E d2 st)) =
      console st @ map as_studentPhoto (emitted st (check_projectImage E d1 st))"
  unfolding check_studentPhoto_def check_projectImage_def assms emitted_def
  by (simp add: print_def fail_def access_def split: sum.splits option.splits bool.splits)

theorem studentPhoto_check_like_projectImage_witness:
  "check_projectImage (directory [] []) (JObj [(''projectImage'', JStr ''x/y.png'')]) init =
     Done \<lparr>hasErrors = True, console = [FilenameOnlyLine ''projectImage'' (JStr ''x/y.png'')],
       fs_log = []\<rparr> \<and>
   console (state_of (check_studentPhoto (directory [] [])
       (JObj [(''studentPhoto'', JStr ''x/y.png'')]) init)) =
     [FilenameOnlyLine ''studentPhoto'' (JStr ''x/y.png'')] \<and>
   hasErrors (state_of (check_studentPhoto (directory [] [])
       (JObj [(''studentPhoto'', JStr ''x/y.png'')]) init))"
proof -
  have same: "js_get (JObj [(''studentPhoto'', JStr ''x/y.png'')]) ''studentPhoto'' =
      js_get (JObj [(''projectImage'', JStr ''x/y.png'')]) ''projectImage''"
    by simp
  have first: "check_projectImage (directory [] []) (JObj [(''projectImage'', JStr ''x/y.png'')]) init =
     Done \<lparr>hasErrors = True, console = [FilenameOnlyLine ''projectImage'' (JStr ''x/y.png'')],
       fs_log = []\<rparr>"
    by (simp add: check_projectImage_def slash_def print_def fail_def init_def)
  show ?thesis
    using studentPhoto_check_like_projectImage [OF same, of "directory [] []" init] first
    by (simp add: emitted_def init_def)
qed

text \<open>
  Claim C10. When \<open>projectImage\<close> (likewise \<open>studentPhoto\<close>) is present with a falsy
  value (the empty string, \<open>null\<close>, \<open>false\<close>, zero), the check of that field returns
  the state it was given: no line, no file access, no change of the flag, nothing thrown.
\<close>

theorem falsy_image_field_skipped:
  "\<not> js_truthy v \<Longrightarrow>
   (field data ''projectImage'' = Some v \<longrightarrow> check_projectImage E data st = Done st) \<and>
   (field data ''studentPhoto'' = Some v \<longrightarrow> check_studentPhoto E data st = Done st)"
  by (simp add: check_projectImage_def check_studentPhoto_def field_Some_get)

theorem falsy_image_field_skipped_witness:
  "check_projectImage (directory [] [])
     (JObj [(''projectImage'', JStr []), (''studentPhoto'', JStr [])]) init = Done init \<and>
   check_studentPhoto (directory [] [])
     (JObj [(''projectImage'', JStr []), (''studentPhoto'', JStr [])]) init = Done init"
proof -
  have falsy: "\<not> js_truthy (JStr [])"
    by simp
  show ?thesis
    using falsy_image_field_skipped [OF falsy,
        of "JObj [(''projectImage'', JStr []), (''studentPhoto'', JStr [])]" "directory [] []" init]
    by simp
qed

subsection \<open>The loop over the files\<close>

lemma check_schema_emit:
  "check_schema validate file data st =
     Done (emit (fst (spec_schema validate file data)) (snd (spec_schema validate file data)) [] st)"
  by (simp add: check_schema_def spec_schema_def emit_def fail_def)

lemma check_imageUrl_emit:
  "is_record data \<Longrightarrow>
   check_imageUrl data st =
     Done (emit (fst (spec_imageUrl data)) (snd (spec_imageUrl data)) [] st)"
  by (cases data) (simp_all add: check_imageUrl_def spec_imageUrl_def to_emit)

lemma ex_emit_nothing [simp]: "\<exists>cs. st = emit False [] cs st"
  by (rule exI [of _ "[]"]) simp

lemma image_value_emit:
  assumes "is_string v"
  shows "\<exists>cs.
    (if \<not> js_truthy v then Done st
     else
       (case js_or (js_includes v slash) (js_includes v backslash) of
          Inl e \<Rightarrow> Threw st e
        | Inr True \<Rightarrow> Done (print (FilenameOnlyLine name v) (fail st))
        | Inr False \<Rightarrow>
            (case path_join publicImagesDir v of
               Inl e \<Rightarrow> Threw st e
             | Inr imgPath \<Rightarrow>
                 (case stat E imgPath of
                    None \<Rightarrow> Done (print (NotFoundLine v) (fail (access (ExistsSync imgPath) st)))
                  | Some bytes \<Rightarrow>
                      if bytes > maxBytes
                      then Done (print (LargeLine bytes)
                             (fail (access (StatSync imgPath) (access (ExistsSync imgPath) st))))
                      else Done (access (StatSync imgPath) (access (ExistsSync imgPath) st)))))) =
    Done (emit (fst (spec_image_value E name v)) (snd (spec_image_value E name v)) cs st)"
proof -
  obtain s where v: "v = JStr s"
    using assms by (cases v) simp_all
  show ?thesis
  proof (cases "s = []")
    case True
    with v show ?thesis
      by auto
  next
    case False
    show ?thesis
    proof (cases "slash \<in> set s \<or> backslash \<in> set s")
      case True
      with False v show ?thesis
        by (auto simp: to_emit)
    next
      case no_path: False
      show ?thesis
      proof (cases "stat E (join_segment publicImagesDir s)")
        case None
        with False no_path v show ?thesis
          by (auto simp: to_emit)
      next
        case (Some bytes)
        with False no_path v show ?thesis
          by (auto simp: to_emit maxBytes_def)
      qed
    qed
  qed
qed

lemma falsy_value_emit:
  "\<not> js_truthy v \<Longrightarrow> spec_image_value E name v = (False, [])"
  by (cases v) simp_all

lemma check_projectImage_emit:
  assumes "is_record data" and "string_or_falsy (field data ''projectImage'')"
  shows "\<exists>cs. check_projectImage E data st =
    Done (emit (fst (spec_image E ''projectImage'' data)) (snd (spec_image E ''projectImage'' data)) cs st)"
proof (cases "field data ''projectImage''")
  case None
  show ?thesis
    using None assms(1) unfolding check_projectImage_def spec_image_def
    by (subst js_get_field) auto
next
  case (Some v)
  show ?thesis
  proof (cases "is_string v")
    case True
    from image_value_emit [OF True, of st "''projectImage''" E] show ?thesis
      using Some by (simp add: check_projectImage_def spec_image_def field_Some_get)
  next
    case False
    then have falsy: "\<not> js_truthy v"
      using assms(2) Some by (simp add: string_or_falsy_def)
    show ?thesis
      using Some falsy
      by (auto simp add: check_projectImage_def spec_image_def field_Some_get falsy_value_emit)
  qed
qed

lemma check_studentPhoto_emit:
  assumes "is_record data" and "string_or_falsy (field data ''studentPhoto'')"
  shows "\<exists>cs. check_studentPhoto E data st =
    Done (emit (fst (spec_image E ''studentPhoto'' data)) (snd (spec_image E ''studentPhoto'' data)) cs st)"
proof (cases "field data ''studentPhoto''")
  case None
  show ?thesis
    using None assms(1) unfolding check_studentPhoto_def spec_image_def
    by (subst js_get_field) auto
next
  case (Some v)
  show ?thesis
  proof (cases "is_string v")
    case True
    from image_value_emit [OF True, of st "''studentPhoto''" E] show ?thesis
      using Some by (simp add: check_studentPhoto_def spec_image_def field_Some_get)
  next
    case False
    then have falsy: "\<not> js_truthy v"
      using assms(2) Some by (simp add: string_or_falsy_def)
    show ?thesis
      using Some falsy
      by (auto simp add: check_studentPhoto_def spec_image_def field_Some_get falsy_value_emit)
  qed
qed

lemma suggest_emit_spec:
  "is_record data \<Longrightarrow>
   suggest suggested data st =
     Done (emit (fst (spec_suggestions data)) (snd (spec_suggestions data)) [] st)"
  by (simp add: suggest_emit spec_suggestions_def)

lemma validate_file_emit:
  assumes "well_formed E file"
  shows "\<exists>cs. validate_file E validate file st =
    Done (emit (file_failed E validate file) (file_report E validate file) cs st)"
proof -
  from assms obtain data where
    parsed: "read_json E (projectsDir @ ''/'' @ file) = Inr data" and
    rec: "is_record data" and
    pi: "string_or_falsy (field data ''projectImage'')" and
    sp: "string_or_falsy (field data ''studentPhoto'')"
    by (auto simp: well_formed_def split: sum.splits)
  have doc: "document E file = data"
    using parsed by (simp add: document_def)
  let ?st0 = "access (ReadFileSync (projectsDir @ ''/'' @ file)) st"
  let ?c1 = "spec_schema validate file data"
  let ?c2 = "spec_imageUrl data"
  let ?c3 = "spec_image E ''projectImage'' data"
  let ?c4 = "spec_image E ''studentPhoto'' data"
  let ?c5 = "spec_suggestions data"
  let ?st1 = "emit (fst ?c1) (snd ?c1) [] ?st0"
  let ?st2 = "emit (fst ?c2) (snd ?c2) [] ?st1"
  obtain cs3 where s3: "check_projectImage E data ?st2 = Done (emit (fst ?c3) (snd ?c3) cs3 ?st2)"
    using check_projectImage_emit [OF rec pi] by blast
  let ?st3 = "emit (fst ?c3) (snd ?c3) cs3 ?st2"
  obtain cs4 where s4: "check_studentPhoto E data ?st3 = Done (emit (fst ?c4) (snd ?c4) cs4 ?st3)"
    using check_studentPhoto_emit [OF rec sp] by blast
  let ?st4 = "emit (fst ?c4) (snd ?c4) cs4 ?st3"
  have "validate_file E validate file st = Done (emit (fst ?c5) (snd ?c5) [] ?st4)"
    using parsed s3 s4
    by (simp add: validate_file_def readJSON_def check_schema_emit check_imageUrl_emit [OF rec]
        suggest_emit_spec [OF rec] del: emit_emit)
  also have "emit (fst ?c5) (snd ?c5) [] ?st4 =
      emit (file_failed E validate file) (file_report E validate file)
        (ReadFileSync (projectsDir @ ''/'' @ file) # cs3 @ cs4) st"
    by (simp add: access_emit file_failed_def file_report_def doc spec_checks_def)
  finally show ?thesis ..
qed

lemma validate_files_emit:
  "list_all (well_formed E) files \<Longrightarrow>
   \<exists>cs. validate_files E validate files st =
     Done (emit (list_ex (file_failed E validate) files)
       (concat (map (file_report E validate) files)) cs st)"
proof (induction files arbitrary: st)
  case Nil
  show ?case
    by auto
next
  case (Cons f fs)
  then have wf: "well_formed E f" and rest: "list_all (well_formed E) fs"
    by simp_all
  obtain cs1 where first: "validate_file E validate f st =
      Done (emit (file_failed E validate f) (file_report E validate f) cs1 st)"
    using validate_file_emit [OF wf] by blast
  obtain cs2 where more: "validate_files E validate fs
      (emit (file_failed E validate f) (file_report E validate f) cs1 st) =
      Done (emit (list_ex (file_failed E validate) fs)
        (concat (map (file_report E validate) fs)) cs2
        (emit (file_failed E validate f) (file_report E validate f) cs1 st))"
    using Cons.IH [OF rest] by blast
  show ?case
    using first more by auto
qed

text \<open>
  Claim C2, as amended. For every sequence of files whose processing throws nothing (each
  file parses to an object or an array, and its two image fields are absent, falsy or
  strings), the loop ends normally; what it prints is, file after file in the order of the
  sequence, the lines of the schema check, of the \<open>imageUrl\<close> check, of the
  \<open>projectImage\<close> check, of the \<open>studentPhoto\<close> check and of the suggestion check,
  each computed from the document alone; and the flag is up at the end exactly when it was
  up before or one of these checks failed on one of the files.
\<close>

theorem checks_independent:
  assumes "list_all (well_formed E) files"
  shows "thrown (validate_files E validate files st) = None \<and>
    hasErrors (state_of (validate_files E validate files st)) =
      (hasErrors st \<or> list_ex (file_failed E validate) files) \<and>
    console (state_of (validate_files E validate files st)) =
      console st @ concat (map (file_report E validate) files)"
proof -
  obtain cs where "validate_files E validate files st =
     Done (emit (list_ex (file_failed E validate) files)
       (concat (map (file_report E validate) files)) cs st)"
    using validate_files_emit [OF assms] by blast
  then show ?thesis
    by (simp add: emit_def)
qed

lemmas run_defs =
  directory_def readJSON_def schemaPath_def findProjectFiles_def eligible_def endsWith_def
  projectsDir_def publicImagesDir_def join_segment_def parent_dir_def validate_file_def
  check_schema_def accept_all_def
  check_imageUrl_def check_projectImage_def check_studentPhoto_def suggested_def slash_def
  backslash_def maxBytes_def print_def access_def fail_def init_def exit_with_def catch_def

lemmas spec_defs =
  well_formed_def string_or_falsy_def file_failed_def file_report_def spec_checks_def
  spec_schema_def spec_imageUrl_def spec_image_def spec_suggestions_def document_def
  schema_error_line_def

theorem checks_independent_witness:
  "thrown (validate_files two_files needs_title [''a.json'', ''b.json''] init) = None \<and>
   hasErrors (state_of (validate_files two_files needs_title [''a.json'', ''b.json''] init)) \<and>
   console (state_of (validate_files two_files needs_title [''a.json'', ''b.json''] init)) =
     [SchemaHeaderLine ''a.json'',
      SchemaErrorLine ''(root)'' ''must have required property title'',
      RenamedLine,
      FilenameOnlyLine ''projectImage'' (JStr ''img/a.png''),
      NotFoundLine (JStr ''missing.png''),
      SuggestionLine ''projectUrl'', SuggestionLine ''githubUrl'', SuggestionLine ''tags'',
      SuggestionLine ''tags'']"
proof -
  have wf: "list_all (well_formed two_files) [''a.json'', ''b.json'']"
    by (simp add: two_files_def spec_defs run_defs)
  show ?thesis
    using checks_independent [OF wf, of needs_title init]
    by (simp add: two_files_def needs_title_def spec_defs run_defs)
qed

text \<open>
  Claim C2, as stated, fails. With a number as the \<open>projectImage\<close> of the first file,
  the check of that field throws: the \<open>studentPhoto\<close> line and the suggestions of the
  file are not printed, and the second file is never read. With a first file that does not
  parse, nothing is printed for it and the second file is never read either.
\<close>

theorem checks_independent_counterexample:
  "thrown (validate_files number_image accept_all [''a.json'', ''b.json''] init) = Some TypeError \<and>
   console (state_of (validate_files number_image accept_all [''a.json'', ''b.json''] init)) =
     [RenamedLine] \<and>
   fs_log (state_of (validate_files number_image accept_all [''a.json'', ''b.json''] init)) =
     [ReadFileSync ''src/data/projects/a.json''] \<and>
   snd (spec_image number_image ''studentPhoto'' (document number_image ''a.json'')) =
     [FilenameOnlyLine ''studentPhoto'' (JStr ''img/a.png'')] \<and>
   file_report number_image accept_all ''b.json'' =
     [RenamedLine, SuggestionLine ''projectUrl'', SuggestionLine ''githubUrl'',
      SuggestionLine ''tags''] \<and>
   thrown (validate_files unparseable accept_all [''a.json'', ''b.json''] init) = Some SyntaxError \<and>
   console (state_of (validate_files unparseable accept_all [''a.json'', ''b.json''] init)) = [] \<and>
   fs_log (state_of (validate_files unparseable accept_all [''a.json'', ''b.json''] init)) =
     [ReadFileSync ''src/data/projects/a.json''] \<and>
   exit_code (main number_image) = 1 \<and> exit_code (main unparseable) = 1"
  by (simp add: number_image_def unparseable_def main_def spec_defs run_defs)

subsection \<open>A path in an image field, and the suggestions, within the loop body\<close>

lemma fs_log_suggest: "fs_log (state_of (suggest keys data st)) = fs_log st"
  by (induction keys arbitrary: st) (auto simp: print_def split: sum.splits)

lemma fs_log_image_value:
  "fs_log (state_of
    (if \<not> js_truthy v then Done st
     else
       (case js_or (js_includes v slash) (js_includes v backslash) of
          Inl e \<Rightarrow> Threw st e
        | Inr True \<Rightarrow> Done (print (FilenameOnlyLine name v) (fail st))
        | Inr False \<Rightarrow>
            (case path_join publicImagesDir v of
               Inl e \<Rightarrow> Threw st e
             | Inr imgPath \<Rightarrow>
                 (case stat E imgPath of
                    None \<Rightarrow> Done (print (NotFoundLine v) (fail (access (ExistsSync imgPath) st)))
                  | Some bytes \<Rightarrow>
                      if bytes > maxBytes
                      then Done (print (LargeLine bytes)
                             (fail (access (StatSync imgPath) (access (ExistsSync imgPath) st))))
                      else Done (access (StatSync imgPath) (access (ExistsSync imgPath) st))))))) =
   fs_log st @ image_calls E (Some v)"
  by (cases v)
    (auto simp add: print_def fail_def access_def split: option.splits bool.splits)

lemma fs_log_check_projectImage:
  "fs_log (state_of (check_projectImage E data st)) =
     fs_log st @ image_calls E (field data ''projectImage'')"
proof (cases "field data ''projectImage''")
  case None
  then show ?thesis
    by (cases "data = JNull") (simp_all add: check_projectImage_def js_get_field)
next
  case (Some v)
  with fs_log_image_value [of v st "''projectImage''" E] show ?thesis
    by (simp add: check_projectImage_def field_Some_get)
qed

lemma fs_log_check_studentPhoto:
  "fs_log (state_of (check_studentPhoto E data st)) =
     fs_log st @ image_calls E (field data ''studentPhoto'')"
proof (cases "field data ''studentPhoto''")
  case None
  then show ?thesis
    by (cases "data = JNull") (simp_all add: check_studentPhoto_def js_get_field)
next
  case (Some v)
  with fs_log_image_value [of v st "''studentPhoto''" E] show ?thesis
    by (simp add: check_studentPhoto_def field_Some_get)
qed

lemma image_calls_path [simp]:
  "slash \<in> set s \<or> backslash \<in> set s \<Longrightarrow> image_calls E (Some (JStr s)) = []"
  by auto

lemma path_check_projectImage:
  "field data ''projectImage'' = Some (JStr s) \<Longrightarrow> slash \<in> set s \<or> backslash \<in> set s \<Longrightarrow>
   check_projectImage E data st = Done (emit True [FilenameOnlyLine ''projectImage'' (JStr s)] [] st)"
  by (auto simp add: check_projectImage_def field_Some_get to_emit)

lemma path_check_studentPhoto:
  "field data ''studentPhoto'' = Some (JStr s) \<Longrightarrow> slash \<in> set s \<or> backslash \<in> set s \<Longrightarrow>
   check_studentPhoto E data st = Done (emit True [FilenameOnlyLine ''studentPhoto'' (JStr s)] [] st)"
  by (auto simp add: check_studentPhoto_def field_Some_get to_emit)

lemma field_Some_record: "field data key = Some v \<Longrightarrow> is_record data"
  by (cases data) simp_all

lemma after_projectImage:
  "grows st (state_of (run_steps [check_studentPhoto E data, suggest keys data] st)) \<and>
   fs_log (state_of (run_steps [check_studentPhoto E data, suggest keys data] st)) =
     fs_log st @ image_calls E (field data ''studentPhoto'')"
proof (cases "check_studentPhoto E data st")
  case (Done st')
  have first: "grows st st'"
    and calls: "fs_log st' = fs_log st @ image_calls E (field data ''studentPhoto'')"
    using grows_check_studentPhoto [of st E data] fs_log_check_studentPhoto [of E data st] Done
    by simp_all
  have last: "state_of (run_steps [check_studentPhoto E data, suggest keys data] st) =
      state_of (suggest keys data st')"
    using Done by (cases "suggest keys data st'") simp_all
  have "grows st (state_of (suggest keys data st'))"
    using first grows_suggest [of st' keys data] by (rule grows_trans)
  then show ?thesis
    unfolding last by (simp add: fs_log_suggest calls)
next
  case (Threw st' e)
  then show ?thesis
    using grows_check_studentPhoto [of st E data] fs_log_check_studentPhoto [of E data st]
    by simp
qed

text \<open>
  Claim C5, as amended. In the processing of a file, a \<open>projectImage\<close> that is a string
  with a forward slash or a backslash raises the failure flag and has the line "filename
  only, no path", with the value, among the lines of the file; so does such a
  \<open>studentPhoto\<close>, provided the \<open>projectImage\<close> of the document is absent, falsy or
  a string, so that its check returns. In both cases the file accesses of the file are
  the read of the file and the accesses of the check of the other field: the value with the
  path is never looked up.
\<close>

theorem path_in_image_field_flagged:
  assumes parsed: "read_json E (projectsDir @ ''/'' @ file) = Inr data"
    and path: "slash \<in> set s \<or> backslash \<in> set s"
  shows "(field data ''projectImage'' = Some (JStr s) \<longrightarrow>
      hasErrors (state_of (validate_file E validate file st)) \<and>
      FilenameOnlyLine ''projectImage'' (JStr s) \<in> set (emitted st (validate_file E validate file st)) \<and>
      touched st (validate_file E validate file st) =
        ReadFileSync (projectsDir @ ''/'' @ file) # image_calls E (field data ''studentPhoto'')) \<and>
    (field data ''studentPhoto'' = Some (JStr s) \<longrightarrow> string_or_falsy (field data ''projectImage'') \<longrightarrow>
      hasErrors (state_of (validate_file E validate file st)) \<and>
      FilenameOnlyLine ''studentPhoto'' (JStr s) \<in> set (emitted st (validate_file E validate file st)) \<and>
      touched st (validate_file E validate file st) =
        ReadFileSync (projectsDir @ ''/'' @ file) # image_calls E (field data ''projectImage''))"
proof (intro conjI impI)
  let ?out = "validate_file E validate file st"
  let ?st0 = "access (ReadFileSync (projectsDir @ ''/'' @ file)) st"
  let ?c1 = "spec_schema validate file data"
  let ?c2 = "spec_imageUrl data"
  let ?st2 = "emit (fst ?c2) (snd ?c2) [] (emit (fst ?c1) (snd ?c1) [] ?st0)"
  {
    assume pi: "field data ''projectImage'' = Some (JStr s)"
    have rec: "is_record data"
      using pi by (rule field_Some_record)
    let ?st3 = "emit True [FilenameOnlyLine ''projectImage'' (JStr s)] [] ?st2"
    let ?rest = "run_steps [check_studentPhoto E data, suggest suggested data] ?st3"
    have run: "?out = ?rest"
      using parsed path_check_projectImage [OF pi path]
      by (simp add: validate_file_def readJSON_def check_schema_emit check_imageUrl_emit [OF rec]
          del: emit_emit)
    from after_projectImage [of ?st3 E data suggested]
    obtain ls where flag: "hasErrors ?st3 \<longrightarrow> hasErrors (state_of ?rest)"
      and lines: "console (state_of ?rest) = console ?st3 @ ls"
      and calls: "fs_log (state_of ?rest) = fs_log ?st3 @ image_calls E (field data ''studentPhoto'')"
      by (auto simp: grows_iff)
    show "hasErrors (state_of ?out)"
      using flag run by (simp add: emit_def)
    show "FilenameOnlyLine ''projectImage'' (JStr s) \<in> set (emitted st ?out)"
      using lines run by (simp add: emitted_def emit_def access_def)
    show "touched st ?out =
        ReadFileSync (projectsDir @ ''/'' @ file) # image_calls E (field data ''studentPhoto'')"
      using calls run by (simp add: touched_def emit_def access_def)
  }
  {
    assume sp: "field data ''studentPhoto'' = Some (JStr s)"
      and ok: "string_or_falsy (field data ''projectImage'')"
    have rec: "is_record data"
      using sp by (rule field_Some_record)
    let ?c3 = "spec_image E ''projectImage'' data"
    obtain cs3 where s3: "check_projectImage E data ?st2 = Done (emit (fst ?c3) (snd ?c3) cs3 ?st2)"
      using check_projectImage_emit [OF rec ok] by blast
    have cs3: "cs3 = image_calls E (field data ''projectImage'')"
      using fs_log_check_projectImage [of E data ?st2] s3 by (simp add: emit_def)
    let ?st3 = "emit (fst ?c3) (snd ?c3) cs3 ?st2"
    let ?st4 = "emit True [FilenameOnlyLine ''studentPhoto'' (JStr s)] [] ?st3"
    have run: "?out = Done (emit False (snd (spec_suggestions data)) [] ?st4)"
      using parsed s3 path_check_studentPhoto [OF sp path]
      by (simp add: validate_file_def readJSON_def check_schema_emit check_imageUrl_emit [OF rec]
          suggest_emit_spec [OF rec] spec_suggestions_def del: emit_emit)
    show "hasErrors (state_of ?out)"
      using run by (simp add: emit_def)
    show "FilenameOnlyLine ''studentPhoto'' (JStr s) \<in> set (emitted st ?out)"
      using run by (simp add: emitted_def emit_def access_def)
    show "touched st ?out =
        ReadFileSync (projectsDir @ ''/'' @ file) # image_calls E (field data ''projectImage'')"
      using run cs3 by (simp add: touched_def emit_def access_def)
  }
qed


theorem path_in_image_field_flagged_witness:
  "hasErrors (state_of (validate_file path_fields accept_all ''a.json'' init)) \<and>
   FilenameOnlyLine ''projectImage'' (JStr ''img/a.png'') \<in>
     set (emitted init (validate_file path_fields accept_all ''a.json'' init)) \<and>
   touched init (validate_file path_fields accept_all ''a.json'' init) =
     [ReadFileSync ''src/data/projects/a.json'', ExistsSync ''public/images/me.png'',
      StatSync ''public/images/me.png''] \<and>
   hasErrors (state_of (validate_file path_fields accept_all ''b.json'' init)) \<and>
   FilenameOnlyLine ''studentPhoto'' (JStr ''img/me.png'') \<in>
     set (emitted init (validate_file path_fields accept_all ''b.json'' init)) \<and>
   touched init (validate_file path_fields accept_all ''b.json'' init) =
     [ReadFileSync ''src/data/projects/b.json'', ExistsSync ''public/images/me.png'',
      StatSync ''public/images/me.png'']"
proof -
  have a: "read_json path_fields (projectsDir @ ''/'' @ ''a.json'') =
      Inr (JObj [(''projectImage'', JStr ''img/a.png''), (''studentPhoto'', JStr ''me.png'')])"
    by (simp add: path_fields_def directory_def projectsDir_def schemaPath_def)
  have b: "read_json path_fields (projectsDir @ ''/'' @ ''b.json'') =
      Inr (JObj [(''projectImage'', JStr ''me.png''), (''studentPhoto'', JStr ''img/me.png'')])"
    by (simp add: path_fields_def directory_def projectsDir_def schemaPath_def)
  have pa: "slash \<in> set ''img/a.png'' \<or> backslash \<in> set ''img/a.png''"
    by (simp add: slash_def)
  have pb: "slash \<in> set ''img/me.png'' \<or> backslash \<in> set ''img/me.png''"
    by (simp add: slash_def)
  show ?thesis
    using path_in_image_field_flagged [OF a pa, where validate = accept_all and st = init]
      path_in_image_field_flagged [OF b pb, where validate = accept_all and st = init]
    by (simp add: string_or_falsy_def path_fields_def directory_def projectsDir_def
        publicImagesDir_def join_segment_def slash_def backslash_def)
qed

text \<open>
  Claim C5, as stated, fails for \<open>studentPhoto\<close>. In the document
  \<open>{"projectImage": 5, "studentPhoto": "img/a.png"}\<close> the check of
  \<open>projectImage\<close> throws at line 69, before line 88 is reached: the flag stays down,
  no line is printed for the file, and the run prints only the thrown error.
\<close>

theorem path_in_image_field_counterexample:
  "field (document number_then_path ''a.json'') ''studentPhoto'' = Some (JStr ''img/a.png'') \<and>
   slash \<in> set ''img/a.png'' \<and>
   validate_file number_then_path accept_all ''a.json'' init =
     Threw \<lparr>hasErrors = False, console = [],
       fs_log = [ReadFileSync ''src/data/projects/a.json'']\<rparr> TypeError \<and>
   printed (main number_then_path) = [InfoLine, UncaughtLine TypeError]"
  by (simp add: number_then_path_def main_def document_def run_defs)

lemma suggest_throws: "\<not> is_record data \<Longrightarrow> suggest suggested data st = Threw st TypeError"
  by (cases data) (simp_all add: suggested_def)

lemma file_failed_checks: "file_failed E validate file = checks_failed E validate file"
  by (simp add: file_failed_def checks_failed_def spec_checks_def spec_suggestions_def)

lemma exit_code_well_formed:
  assumes "read_json E schemaPath = Inr schema" and "ajv_compile E schema = Inr validate"
    and "readdirSync E = Inr names" and "filter eligible names \<noteq> []"
    and wf: "list_all (well_formed E) (filter eligible names)"
  shows "exit_code (main E) =
    (if list_ex (checks_failed E validate) (filter eligible names) then 1 else 0)"
proof -
  let ?st2 = "access (ReaddirSync projectsDir) (access (ReadFileSync schemaPath) (print InfoLine init))"
  obtain cs where "validate_files E validate (filter eligible names) ?st2 =
     Done (emit (list_ex (file_failed E validate) (filter eligible names))
       (concat (map (file_report E validate) (filter eligible names))) cs ?st2)"
    using validate_files_emit [OF wf] by blast
  moreover have "\<not> hasErrors ?st2"
    by (simp add: access_def print_def init_def)
  ultimately show ?thesis
    using assms(1-4)
    by (simp add: main_def readJSON_def findProjectFiles_def exit_with_def emit_def
        file_failed_checks [abs_def])
qed

text \<open>
  Claim C8, as amended. On an object or an array the suggestion step ends normally, prints
  one suggestion line, in the order \<open>projectUrl\<close>, \<open>githubUrl\<close>, \<open>tags\<close>, for
  each of these keys that the document lacks, and changes nothing else; on any other
  document it throws without changing the state. In the processing of a file that parses
  to an object or an array whose image fields are absent, falsy or strings, nothing is
  thrown, the suggestion lines of the absent keys end the lines of the file, and the flag
  is up afterwards exactly when it was up before or one of the four other checks failed.
  In a run over such files the exit status is 1 exactly when one of the four other checks
  failed on one of them: the suggested fields have no part in it.
\<close>

theorem suggestions_never_fail:
  "suggest suggested data st =
     (if is_record data
      then Done (st\<lparr>console := console st @
             map SuggestionLine (filter (\<lambda>key. field data key = None) suggested)\<rparr>)
      else Threw st TypeError) \<and>
   (well_formed E f \<longrightarrow>
      thrown (validate_file E validate f st) = None \<and>
      hasErrors (state_of (validate_file E validate f st)) =
        (hasErrors st \<or> checks_failed E validate f) \<and>
      emitted st (validate_file E validate f st) =
        snd (spec_schema validate f (document E f)) @
        snd (spec_imageUrl (document E f)) @
        snd (spec_image E ''projectImage'' (document E f)) @
        snd (spec_image E ''studentPhoto'' (document E f)) @
        map SuggestionLine (filter (\<lambda>key. field (document E f) key = None) suggested)) \<and>
   (read_json E schemaPath = Inr schema \<longrightarrow> ajv_compile E schema = Inr validate \<longrightarrow>
    readdirSync E = Inr names \<longrightarrow> filter eligible names \<noteq> [] \<longrightarrow>
    list_all (well_formed E) (filter eligible names) \<longrightarrow>
      exit_code (main E) =
        (if list_ex (checks_failed E validate) (filter eligible names) then 1 else 0))"
proof (intro conjI impI)
  show "suggest suggested data st =
     (if is_record data
      then Done (st\<lparr>console := console st @
             map SuggestionLine (filter (\<lambda>key. field data key = None) suggested)\<rparr>)
      else Threw st TypeError)"
    by (simp add: suggest_emit suggest_throws emit_def)
next
  assume wf: "well_formed E f"
  obtain cs where out: "validate_file E validate f st =
      Done (emit (file_failed E validate f) (file_report E validate f) cs st)"
    using validate_file_emit [OF wf] by blast
  show "thrown (validate_file E validate f st) = None"
    using out by simp
  show "hasErrors (state_of (validate_file E validate f st)) =
      (hasErrors st \<or> checks_failed E validate f)"
    using out by (simp add: emit_def file_failed_checks)
  show "emitted st (validate_file E validate f st) =
      snd (spec_schema validate f (document E f)) @
      snd (spec_imageUrl (document E f)) @
      snd (spec_image E ''projectImage'' (document E f)) @
      snd (spec_image E ''studentPhoto'' (document E f)) @
      map SuggestionLine (filter (\<lambda>key. field (document E f) key = None) suggested)"
    using out by (simp add: file_report_def spec_checks_def spec_suggestions_def)
next
  assume "read_json E schemaPath = Inr schema" "ajv_compile E schema = Inr validate"
    "readdirSync E = Inr names" "filter eligible names \<noteq> []"
    "list_all (well_formed E) (filter eligible names)"
  then show "exit_code (main E) =
      (if list_ex (checks_failed E validate) (filter eligible names) then 1 else 0)"
    by (rule exit_code_well_formed)
qed

theorem suggestions_never_fail_witness:
  "suggest suggested (JObj [(''title'', JStr ''A''), (''githubUrl'', JStr ''g'')]) init =
     Done \<lparr>hasErrors = False,
       console = [SuggestionLine ''projectUrl'', SuggestionLine ''tags''], fs_log = []\<rparr> \<and>
   thrown (validate_file two_files accept_all ''b.json'' init) = None \<and>
   hasErrors (state_of (validate_file two_files accept_all ''b.json'' init)) = False \<and>
   emitted init (validate_file two_files accept_all ''b.json'' init) = [SuggestionLine ''tags''] \<and>
   exit_code (main (directory [(''b.json'', Inr (JObj [(''title'', JStr ''B'')]))] [])) = 0"
proof -
  let ?E = "directory [(''b.json'', Inr (JObj [(''title'', JStr ''B'')]))] []"
  have wf: "well_formed two_files ''b.json''"
    by (simp add: two_files_def spec_defs run_defs)
  have schema: "read_json ?E schemaPath = Inr (JObj [])"
    and compiled: "ajv_compile ?E (JObj []) = Inr accept_all"
    and listing: "readdirSync ?E = Inr [''project.schema.json'', ''b.json'']"
    by (simp_all add: directory_def)
  have some: "filter eligible [''project.schema.json'', ''b.json''] \<noteq> []"
    by (simp add: eligible_def endsWith_def)
  have all_wf: "list_all (well_formed ?E) (filter eligible [''project.schema.json'', ''b.json''])"
    by (simp add: spec_defs run_defs)
  show ?thesis
    using suggestions_never_fail [where data = "JObj [(''title'', JStr ''A''), (''githubUrl'', JStr ''g'')]"
        and st = init and E = two_files and f = "''b.json''" and validate = accept_all
        and schema = "JObj []" and names = "[]"]
      suggestions_never_fail [where data = JNull and st = init and E = ?E and f = "''b.json''"
        and validate = accept_all and schema = "JObj []"
        and names = "[''project.schema.json'', ''b.json'']"]
      wf schema compiled listing some all_wf
    by (simp add: init_def checks_failed_def two_files_def spec_defs run_defs)
qed

text \<open>
  Claim C8, as stated, fails. A directory whose only project file is the JSON string
  \<open>"abc"\<close>, under a schema that accepts every document: the key \<open>tags\<close> is
  absent, yet the suggestion step throws, no suggestion is printed, and the run ends with
  status 1 although no check has failed.
\<close>

theorem suggestions_counterexample:
  "field (JStr ''abc'') ''tags'' = None \<and>
   valid (accept_all (JStr ''abc'')) \<and>
   suggest suggested (JStr ''abc'') init = Threw init TypeError \<and>
   printed (main string_document) = [InfoLine, UncaughtLine TypeError] \<and>
   exit_code (main string_document) = 1"
  by (simp add: string_document_def main_def run_defs)

subsection \<open>The whole run\<close>

text \<open>
  Claim C7. When the listing of the projects directory holds no eligible name (a name
  ending in \<open>.json\<close> other than \<open>project.schema.json\<close>), the run ends with status 1
  after two lines: the opening line and one error line, which is "no project files"
  when the schema loaded, and the thrown error when it did not. No project file is read
  and no image is looked up: the only file accesses are the schema and the listing.
\<close>

theorem no_files_exits_at_once:
  assumes "readdirSync E = Inr names" and "filter eligible names = []"
  shows "exit_code (main E) = 1 \<and>
    printed (main E) =
      [InfoLine,
       (case read_json E schemaPath of
          Inl e \<Rightarrow> UncaughtLine e
        | Inr schema \<Rightarrow>
            (case ajv_compile E schema of
               Inl e \<Rightarrow> UncaughtLine e
             | Inr validate \<Rightarrow> NoFilesLine))] \<and>
    accessed (main E) =
      ReadFileSync schemaPath #
      (case read_json E schemaPath of
         Inl e \<Rightarrow> []
       | Inr schema \<Rightarrow>
           (case ajv_compile E schema of
              Inl e \<Rightarrow> []
            | Inr validate \<Rightarrow> [ReaddirSync projectsDir]))"
  using assms
  by (simp add: main_def readJSON_def findProjectFiles_def catch_def exit_with_def print_def
      access_def init_def split: sum.splits)

theorem no_files_exits_at_once_witness:
  "exit_code (main (directory [(''notes.txt'', Inr (JObj [])), (''a.jsonl'', Inr (JObj []))] [])) = 1 \<and>
   printed (main (directory [(''notes.txt'', Inr (JObj [])), (''a.jsonl'', Inr (JObj []))] [])) =
     [InfoLine, NoFilesLine] \<and>
   accessed (main (directory [(''notes.txt'', Inr (JObj [])), (''a.jsonl'', Inr (JObj []))] [])) =
     [ReadFileSync ''src/data/projects/project.schema.json'', ReaddirSync ''src/data/projects'']"
proof -
  let ?E = "directory [(''notes.txt'', Inr (JObj [])), (''a.jsonl'', Inr (JObj []))] []"
  have listing: "readdirSync ?E = Inr [''project.schema.json'', ''notes.txt'', ''a.jsonl'']"
    by (simp add: directory_def)
  have none: "filter eligible [''project.schema.json'', ''notes.txt'', ''a.jsonl''] = []"
    by (simp add: eligible_def endsWith_def)
  show ?thesis
    using no_files_exits_at_once [OF listing none]
    by (simp add: directory_def schemaPath_def projectsDir_def)
qed

lemma clean_step:
  assumes first: "\<And>st. clean (step st) \<longleftrightarrow> \<not> hasErrors st \<and> c"
    and rest: "\<And>st. clean (run_steps steps st) \<longleftrightarrow> \<not> hasErrors st \<and> cs"
  shows "clean (run_steps (step # steps) st) \<longleftrightarrow> \<not> hasErrors st \<and> c \<and> cs"
proof (cases "step st")
  case (Done st')
  have "\<not> hasErrors st' \<longleftrightarrow> \<not> hasErrors st \<and> c"
    using first [of st] Done by simp
  then show ?thesis
    using rest [of st'] Done by auto
next
  case (Threw st' e)
  have "\<not> (\<not> hasErrors st \<and> c)"
    using first [of st] Threw by simp
  then show ?thesis
    using Threw by auto
qed

lemma clean_check_schema:
  "clean (check_schema validate file data st) \<longleftrightarrow> \<not> hasErrors st \<and> valid (validate data)"
  by (simp add: check_schema_def fail_def)

lemma clean_check_imageUrl:
  "clean (check_imageUrl data st) \<longleftrightarrow>
     \<not> hasErrors st \<and> (data \<noteq> JNull \<and> truthy (field data ''imageUrl'') = False)"
  by (cases data) (simp_all add: check_imageUrl_def print_def fail_def)

lemma clean_image_value:
  "clean
    (if \<not> js_truthy v then Done st
     else
       (case js_or (js_includes v slash) (js_includes v backslash) of
          Inl e \<Rightarrow> Threw st e
        | Inr True \<Rightarrow> Done (print (FilenameOnlyLine name v) (fail st))
        | Inr False \<Rightarrow>
            (case path_join publicImagesDir v of
               Inl e \<Rightarrow> Threw st e
             | Inr imgPath \<Rightarrow>
                 (case stat E imgPath of
                    None \<Rightarrow> Done (print (NotFoundLine v) (fail (access (ExistsSync imgPath) st)))
                  | Some bytes \<Rightarrow>
                      if bytes > maxBytes
                      then Done (print (LargeLine bytes)
                             (fail (access (StatSync imgPath) (access (ExistsSync imgPath) st))))
                      else Done (access (StatSync imgPath) (access (ExistsSync imgPath) st)))))) \<longleftrightarrow>
   \<not> hasErrors st \<and> image_ok E (Some v)"
  by (cases v)
    (auto simp add: image_ok_def print_def fail_def access_def maxBytes_def
      split: option.splits bool.splits)

lemma clean_check_projectImage:
  "clean (check_projectImage E data st) \<longleftrightarrow>
     \<not> hasErrors st \<and> (data \<noteq> JNull \<and> image_ok E (field data ''projectImage''))"
proof (cases "data = JNull")
  case True
  then show ?thesis
    by (simp add: check_projectImage_def)
next
  case False
  show ?thesis
  proof (cases "field data ''projectImage''")
    case None
    with False show ?thesis
      by (simp add: check_projectImage_def js_get_field image_ok_def)
  next
    case (Some v)
    with False clean_image_value [of v st "''projectImage''" E] show ?thesis
      by (simp add: check_projectImage_def js_get_field)
  qed
qed

lemma clean_check_studentPhoto:
  "clean (check_studentPhoto E data st) \<longleftrightarrow>
     \<not> hasErrors st \<and> (data \<noteq> JNull \<and> image_ok E (field data ''studentPhoto''))"
proof (cases "data = JNull")
  case True
  then show ?thesis
    by (simp add: check_studentPhoto_def)
next
  case False
  show ?thesis
  proof (cases "field data ''studentPhoto''")
    case None
    with False show ?thesis
      by (simp add: check_studentPhoto_def js_get_field image_ok_def)
  next
    case (Some v)
    with False clean_image_value [of v st "''studentPhoto''" E] show ?thesis
      by (simp add: check_studentPhoto_def js_get_field)
  qed
qed

lemma clean_suggest:
  "clean (suggest suggested data st) \<longleftrightarrow> \<not> hasErrors st \<and> is_record data"
proof (cases "is_record data")
  case True
  then show ?thesis
    by (simp add: suggest_emit emit_def)
next
  case False
  then have "js_in ''projectUrl'' data = Inl TypeError"
    by (cases data) simp_all
  with False show ?thesis
    by (simp add: suggested_def)
qed

lemma clean_validate_file:
  "clean (validate_file E validate file st) \<longleftrightarrow> \<not> hasErrors st \<and> file_ok E validate file"
proof (cases "read_json E (projectsDir @ ''/'' @ file)")
  case (Inl e)
  then show ?thesis
    by (simp add: validate_file_def readJSON_def file_ok_def)
next
  case (Inr data)
  let ?st0 = "access (ReadFileSync (projectsDir @ ''/'' @ file)) st"
  have steps: "clean (run_steps
        [check_schema validate file data, check_imageUrl data, check_projectImage E data,
         check_studentPhoto E data, suggest suggested data] s) \<longleftrightarrow>
      \<not> hasErrors s \<and> valid (validate data) \<and>
      (data \<noteq> JNull \<and> truthy (field data ''imageUrl'') = False) \<and>
      (data \<noteq> JNull \<and> image_ok E (field data ''projectImage'')) \<and>
      (data \<noteq> JNull \<and> image_ok E (field data ''studentPhoto'')) \<and>
      is_record data \<and> True" for s
    by (rule clean_step clean_check_schema clean_check_imageUrl clean_check_projectImage
        clean_check_studentPhoto clean_suggest | simp)+
  have "hasErrors ?st0 = hasErrors st"
    by (simp add: access_def)
  moreover have "is_record data \<Longrightarrow> data \<noteq> JNull"
    by auto
  ultimately show ?thesis
    using Inr steps [of ?st0]
    by (auto simp add: validate_file_def readJSON_def file_ok_def)
qed

lemma clean_validate_files:
  "clean (validate_files E validate files st) \<longleftrightarrow>
     \<not> hasErrors st \<and> list_all (file_ok E validate) files"
proof (induction files arbitrary: st)
  case Nil
  show ?case by simp
next
  case (Cons f fs)
  show ?case
  proof (cases "validate_file E validate f st")
    case (Done st')
    have "\<not> hasErrors st' \<longleftrightarrow> \<not> hasErrors st \<and> file_ok E validate f"
      using clean_validate_file [of E validate f st] Done by simp
    then show ?thesis
      using Cons.IH [of st'] Done by auto
  next
    case (Threw st' e)
    have "\<not> (\<not> hasErrors st \<and> file_ok E validate f)"
      using clean_validate_file [of E validate f st] Threw by simp
    then show ?thesis
      using Threw by auto
  qed
qed

lemma exit_code_loop:
  "exit_code
     (case validate_files E validate files st of
        Threw st3 e \<Rightarrow> catch st3 e
      | Done st3 \<Rightarrow>
          if hasErrors st3 then exit_with 1 (print FailedLine st3)
          else exit_with 0 (print (AllValidLine n) st3)) =
   (if clean (validate_files E validate files st) then 0 else 1)"
  by (cases "validate_files E validate files st") (simp_all add: catch_def exit_with_def)

text \<open>
  Claim C1, as amended. The exit status is 0 exactly when the schema loads, the directory
  lists at least one eligible file, and every eligible file parses to an object (or an
  array), passes the schema, has no truthy \<open>imageUrl\<close>, and has each of
  \<open>projectImage\<close> and \<open>studentPhoto\<close> absent, falsy, or a bare filename of an existing
  file of at most 10 MiB. In every other case the exit status is 1.
\<close>

theorem exit_status_characterised:
  "exit_code (main E) = (if succeeds E then 0 else 1)"
proof (cases "read_json E schemaPath")
  case (Inl e)
  then show ?thesis
    by (simp add: main_def succeeds_def readJSON_def catch_def exit_with_def)
next
  case schema: (Inr schema)
  show ?thesis
  proof (cases "ajv_compile E schema")
    case (Inl e)
    with schema show ?thesis
      by (simp add: main_def succeeds_def readJSON_def catch_def exit_with_def)
  next
    case compiled: (Inr validate)
    show ?thesis
    proof (cases "readdirSync E")
      case (Inl e)
      with schema compiled show ?thesis
        by (simp add: main_def succeeds_def readJSON_def findProjectFiles_def catch_def
            exit_with_def)
    next
      case (Inr names)
      let ?st2 = "access (ReaddirSync projectsDir) (access (ReadFileSync schemaPath) (print InfoLine init))"
      have flag: "\<not> hasErrors ?st2"
        by (simp add: access_def print_def init_def)
      show ?thesis
      proof (cases "filter eligible names = []")
        case True
        with schema compiled Inr show ?thesis
          by (simp add: main_def succeeds_def readJSON_def findProjectFiles_def exit_with_def)
      next
        case False
        with schema compiled Inr flag show ?thesis
          by (simp add: main_def succeeds_def readJSON_def findProjectFiles_def
              exit_code_loop clean_validate_files)
      qed
    qed
  qed
qed

theorem exit_status_characterised_witness:
  "exit_code (main two_files) = 1 \<and>
   exit_code (main (directory [(''b.json'', Inr (JObj [(''title'', JStr ''B''),
      (''projectImage'', JStr ''b.png''), (''studentPhoto'', JStr [])]))]
      [(''b.png'', 10485760)])) = 0"
  using exit_status_characterised [of two_files]
    exit_status_characterised [of "directory [(''b.json'', Inr (JObj [(''title'', JStr ''B''),
      (''projectImage'', JStr ''b.png''), (''studentPhoto'', JStr [])]))]
      [(''b.png'', 10485760)]"]
  by (simp add: succeeds_def file_ok_def image_ok_def two_files_def directory_def schemaPath_def
      projectsDir_def publicImagesDir_def join_segment_def eligible_def endsWith_def
      accept_all_def slash_def
      backslash_def)

text \<open>
  Claim C1, as stated, fails. A directory whose only project file is the document
  \<open>{"projectImage": ""}\<close>, with no image on disk and a schema that accepts every
  document: the field is present and names no existing file, and the run ends with
  status 0.
\<close>

theorem exit_status_counterexample:
  "field (document empty_image ''a.json'') ''projectImage'' = Some (JStr []) \<and>
   stat empty_image (join_segment publicImagesDir []) = None \<and>
   \<not> succeeds_present empty_image \<and>
   exit_code (main empty_image) = 0"
  by (simp add: main_def empty_image_def succeeds_present_def file_ok_present_def
      present_image_ok_def document_def run_defs)

end
